theory Spec2Isabelle
  imports Main "HOL-Library.Sublist"
begin

section \<open>Data model\<close>

text \<open>
  The help desk has two backends. The Express server (\<^verbatim>\<open>server/routes/tickets.js\<close>,
  \<^verbatim>\<open>routes/users.js\<close>, \<^verbatim>\<open>routes/auth.js\<close>, \<^verbatim>\<open>middleware/auth.js\<close>) stores Mongoose
  documents; the serverless functions (\<^verbatim>\<open>netlify/functions/users.js\<close>) store rows in
  Supabase tables. Documents are records, collections are lists of records, and a route
  handler is a function from the request and the database to a response and the new
  database. Every \<^verbatim>\<open>return res.status(...)\<close> of a handler is an \<open>Inl\<close> branch.

  Identifiers, roles, statuses and priorities are strings, as in the source. Timestamps
  are natural numbers; \<^verbatim>\<open>Date.now()\<close> is the parameter \<open>now\<close> of a handler, and the
  identifier that the database gives to a new document is the parameter \<open>newId\<close>.
\<close>

type_synonym oid = string
type_synonym time = nat

text \<open>The payload of the token, \<^verbatim>\<open>req.user\<close>, set by the \<^verbatim>\<open>auth\<close> middleware.\<close>

record actor =
  a_id :: oid
  a_role :: string
  a_organizationId :: oid

record ticket =
  t_id :: oid
  title :: string
  description :: string
  category :: string
  priority :: string
  status :: string
  createdBy :: oid
  assignedTo :: "oid option"
  t_organizationId :: oid
  resolvedAt :: "time option"
  t_updatedAt :: time

record response =
  r_id :: oid
  ticketId :: oid
  userId :: oid
  content :: string
  isInternal :: bool
  r_createdAt :: time

record user =
  u_id :: oid
  email :: string
  firstName :: string
  lastName :: string
  u_role :: string
  u_organizationId :: oid
  parentUserId :: "oid option"
  isActive :: bool
  u_updatedAt :: time

record organization =
  o_id :: oid
  o_name :: string
  maxUsers :: nat

record db =
  tickets :: "ticket list"
  responses :: "response list"
  users :: "user list"
  organizations :: "organization list"

text \<open>The responses a handler sends before it has done its work.\<close>

datatype error =
    ValidationFailed
  | BadRequest string
  | Forbidden string
  | NotFound string

fun statusCode :: "error \<Rightarrow> nat" where
  "statusCode ValidationFailed = 400"
| "statusCode (BadRequest m) = 400"
| "statusCode (Forbidden m) = 403"
| "statusCode (NotFound m) = 404"

section \<open>Middleware and validators\<close>

text \<open>\<^verbatim>\<open>authorize(...roles)\<close>: the request goes on iff \<^verbatim>\<open>roles.includes(req.user.role)\<close>.\<close>

definition authorize :: "string list \<Rightarrow> actor \<Rightarrow> bool" where
  "authorize roles user = (a_role user \<in> set roles)"

text \<open>A field of a JSON body is absent (\<open>None\<close>) or a string; the JavaScript test
  \<^verbatim>\<open>if (field)\<close> holds for a string that is present and not empty.\<close>

definition truthy :: "string option \<Rightarrow> bool" where
  "truthy v = (case v of None \<Rightarrow> False | Some s \<Rightarrow> s \<noteq> [])"

text \<open>\<^verbatim>\<open>check(f).optional().not().isEmpty()\<close> and \<^verbatim>\<open>check(f).optional().isIn(xs)\<close>.\<close>

definition optional_notEmpty :: "string option \<Rightarrow> bool" where
  "optional_notEmpty v = (case v of None \<Rightarrow> True | Some s \<Rightarrow> s \<noteq> [])"

definition optional_isIn :: "string list \<Rightarrow> string option \<Rightarrow> bool" where
  "optional_isIn xs v = (case v of None \<Rightarrow> True | Some s \<Rightarrow> s \<in> set xs)"

text \<open>\<^verbatim>\<open>isMongoId\<close>: twenty-four hexadecimal digits.\<close>

definition isHexadecimal :: "string \<Rightarrow> bool" where
  "isHexadecimal s = (s \<noteq> [] \<and> list_all (\<lambda>c. c \<in> set ''0123456789abcdefABCDEF'') s)"

definition isMongoId :: "string \<Rightarrow> bool" where
  "isMongoId s = (isHexadecimal s \<and> length s = 24)"

definition optional_isMongoId :: "string option \<Rightarrow> bool" where
  "optional_isMongoId v = (case v of None \<Rightarrow> True | Some s \<Rightarrow> isMongoId s)"

definition statuses :: "string list" where
  "statuses = [''open'', ''in_progress'', ''on_hold'', ''pending'', ''resolved'', ''archived'']"

definition priorities :: "string list" where
  "priorities = [''low'', ''medium'', ''high'', ''urgent'']"

section \<open>Collections\<close>

text \<open>\<^verbatim>\<open>findById\<close> finds the first document of the id. For an id that is not an ObjectId
  it throws, and the \<^verbatim>\<open>catch\<close> block of every handler answers that with the same 404 as
  for an id that is not found; both are the \<open>None\<close> of the model.\<close>

definition Ticket_findById :: "db \<Rightarrow> oid \<Rightarrow> ticket option" where
  "Ticket_findById d i = find (\<lambda>t. t_id t = i) (tickets d)"

text \<open>\<^verbatim>\<open>ticket.save()\<close> writes the document back under its \<^verbatim>\<open>_id\<close>.\<close>

definition Ticket_save :: "ticket \<Rightarrow> db \<Rightarrow> db" where
  "Ticket_save t d = d\<lparr>tickets := map (\<lambda>x. if t_id x = t_id t then t else x) (tickets d)\<rparr>"

definition Ticket_remove :: "ticket \<Rightarrow> db \<Rightarrow> db" where
  "Ticket_remove t d = d\<lparr>tickets := filter (\<lambda>x. t_id x \<noteq> t_id t) (tickets d)\<rparr>"

text \<open>\<^verbatim>\<open>TicketResponse.find({ ticketId }).sort({ createdAt: 1 })\<close>.\<close>

definition TicketResponse_find :: "db \<Rightarrow> oid \<Rightarrow> response list" where
  "TicketResponse_find d i = sort_key r_createdAt (filter (\<lambda>r. ticketId r = i) (responses d))"

definition TicketResponse_save :: "response \<Rightarrow> db \<Rightarrow> db" where
  "TicketResponse_save r d = d\<lparr>responses := responses d @ [r]\<rparr>"

definition TicketResponse_deleteMany :: "oid \<Rightarrow> db \<Rightarrow> db" where
  "TicketResponse_deleteMany i d = d\<lparr>responses := filter (\<lambda>r. ticketId r \<noteq> i) (responses d)\<rparr>"

section \<open>Ticket routes\<close>

subsection \<open>GET api/tickets\<close>

record ticket_query =
  q_status :: "string option"
  q_search :: "string option"

text \<open>The Mongo query that the handler builds, as a predicate on a ticket. The full-text
  search of the database is the parameter \<open>text_search\<close>.\<close>

definition query_matches ::
  "(string \<Rightarrow> ticket \<Rightarrow> bool) \<Rightarrow> actor \<Rightarrow> ticket_query \<Rightarrow> ticket \<Rightarrow> bool" where
  "query_matches text_search user q t =
     (t_organizationId t = a_organizationId user
      \<and> (if a_role user = ''customer'' then createdBy t = a_id user else True)
      \<and> (if truthy (q_status q) \<and> the (q_status q) \<in> set statuses
          then status t = the (q_status q) else True)
      \<and> (if truthy (q_search q) then text_search (the (q_search q)) t else True))"

text \<open>\<^verbatim>\<open>Ticket.find(query).sort({ updatedAt: -1 })\<close>: newest first.\<close>

definition get_tickets ::
  "(string \<Rightarrow> ticket \<Rightarrow> bool) \<Rightarrow> actor \<Rightarrow> ticket_query \<Rightarrow> db \<Rightarrow> ticket list" where
  "get_tickets text_search user q d =
     rev (sort_key t_updatedAt (filter (query_matches text_search user q) (tickets d)))"

subsection \<open>GET api/tickets/:id\<close>

definition filteredResponses :: "actor \<Rightarrow> response list \<Rightarrow> response list" where
  "filteredResponses user rs =
     (if a_role user = ''customer'' then filter (\<lambda>response. \<not> isInternal response) rs else rs)"

definition get_ticket :: "actor \<Rightarrow> oid \<Rightarrow> db \<Rightarrow> error + ticket \<times> response list" where
  "get_ticket user i d =
     (case Ticket_findById d i of
        None \<Rightarrow> Inl (NotFound ''Ticket not found'')
      | Some ticket \<Rightarrow>
          if t_organizationId ticket \<noteq> a_organizationId user
             \<or> (a_role user = ''customer'' \<and> createdBy ticket \<noteq> a_id user)
          then Inl (Forbidden ''Not authorized to access this ticket'')
          else Inr (ticket, filteredResponses user (TicketResponse_find d (t_id ticket))))"

text \<open>\<^verbatim>\<open>populate\<close> puts the documents of the creator and the assignee into the answer; the
  model keeps their ids, and \<^verbatim>\<open>ticket.createdBy.toString()\<close> is the id of the creator.\<close>

subsection \<open>PUT api/tickets/:id\<close>

record ticket_body =
  b_title :: "string option"
  b_description :: "string option"
  b_status :: "string option"
  b_priority :: "string option"
  b_category :: "string option"
  b_assignedTo :: "string option"

definition valid_ticket_body :: "ticket_body \<Rightarrow> bool" where
  "valid_ticket_body b =
     (optional_notEmpty (b_title b) \<and> optional_notEmpty (b_description b)
      \<and> optional_isIn statuses (b_status b) \<and> optional_isIn priorities (b_priority b)
      \<and> optional_isMongoId (b_assignedTo b))"

text \<open>The branch of a customer: \<^verbatim>\<open>title\<close>, \<^verbatim>\<open>description\<close> and \<^verbatim>\<open>category\<close> are read
  from the body, nothing else.\<close>

definition customer_update :: "ticket_body \<Rightarrow> ticket \<Rightarrow> ticket" where
  "customer_update b ticket =
     (let t1 = (if truthy (b_title b) then ticket\<lparr>title := the (b_title b)\<rparr> else ticket);
          t2 = (if truthy (b_description b) then t1\<lparr>description := the (b_description b)\<rparr> else t1)
      in if truthy (b_category b) then t2\<lparr>category := the (b_category b)\<rparr> else t2)"

text \<open>
  The status block of the other branch:
  \<^verbatim>\<open>ticket.status = status;
  if (status === 'resolved' && ticket.status !== 'resolved') ticket.resolvedAt = Date.now();
  else if (status !== 'resolved') ticket.resolvedAt = null;\<close>
  The test reads \<^verbatim>\<open>ticket.status\<close> after the assignment. Every \<^verbatim>\<open>Date.now()\<close> of one
  request is the one parameter \<open>now\<close>.
\<close>

definition set_status :: "time \<Rightarrow> string \<Rightarrow> ticket \<Rightarrow> ticket" where
  "set_status now s ticket =
     (let t1 = ticket\<lparr>status := s\<rparr>
      in if s = ''resolved'' \<and> status t1 \<noteq> ''resolved'' then t1\<lparr>resolvedAt := Some now\<rparr>
         else if s \<noteq> ''resolved'' then t1\<lparr>resolvedAt := None\<rparr>
         else t1)"

definition staff_update :: "time \<Rightarrow> ticket_body \<Rightarrow> ticket \<Rightarrow> ticket" where
  "staff_update now b ticket =
     (let t1 = (if truthy (b_title b) then ticket\<lparr>title := the (b_title b)\<rparr> else ticket);
          t2 = (if truthy (b_description b) then t1\<lparr>description := the (b_description b)\<rparr> else t1);
          t3 = (if truthy (b_status b) then set_status now (the (b_status b)) t2 else t2);
          t4 = (if truthy (b_priority b) then t3\<lparr>priority := the (b_priority b)\<rparr> else t3);
          t5 = (if truthy (b_category b) then t4\<lparr>category := the (b_category b)\<rparr> else t4)
      in if truthy (b_assignedTo b) then t5\<lparr>assignedTo := b_assignedTo b\<rparr> else t5)"

definition put_ticket ::
  "time \<Rightarrow> actor \<Rightarrow> oid \<Rightarrow> ticket_body \<Rightarrow> db \<Rightarrow> (error + ticket) \<times> db" where
  "put_ticket now user i b d =
     (if \<not> valid_ticket_body b then (Inl ValidationFailed, d)
      else case Ticket_findById d i of
        None \<Rightarrow> (Inl (NotFound ''Ticket not found''), d)
      | Some ticket \<Rightarrow>
          if t_organizationId ticket \<noteq> a_organizationId user
          then (Inl (Forbidden ''Not authorized to update this ticket''), d)
          else if a_role user = ''customer'' then
            (if createdBy ticket \<noteq> a_id user
             then (Inl (Forbidden ''Not authorized to update this ticket''), d)
             else let t' = (customer_update b ticket)\<lparr>t_updatedAt := now\<rparr>
                  in (Inr t', Ticket_save t' d))
          else let t' = (staff_update now b ticket)\<lparr>t_updatedAt := now\<rparr>
               in (Inr t', Ticket_save t' d))"

subsection \<open>POST api/tickets/:id/responses\<close>

record response_body =
  b_content :: string
  b_isInternal :: "bool option"

definition post_response ::
  "time \<Rightarrow> oid \<Rightarrow> actor \<Rightarrow> oid \<Rightarrow> response_body \<Rightarrow> db \<Rightarrow> (error + response) \<times> db" where
  "post_response now newId user i b d =
     (if b_content b = [] then (Inl ValidationFailed, d)
      else case Ticket_findById d i of
        None \<Rightarrow> (Inl (NotFound ''Ticket not found''), d)
      | Some ticket \<Rightarrow>
          if t_organizationId ticket \<noteq> a_organizationId user
             \<or> (a_role user = ''customer'' \<and> createdBy ticket \<noteq> a_id user)
          then (Inl (Forbidden ''Not authorized to respond to this ticket''), d)
          else
            let isInternalNote = (b_isInternal b = Some True \<and> a_role user \<in> set [''admin'', ''agent'']);
                newResponse = \<lparr>r_id = newId, ticketId = t_id ticket, userId = a_id user,
                               content = b_content b, isInternal = isInternalNote,
                               r_createdAt = now\<rparr>;
                d1 = TicketResponse_save newResponse d
            in if status ticket \<in> set [''resolved'', ''archived'']
               then (Inr newResponse,
                     Ticket_save (ticket\<lparr>status := ''open'', resolvedAt := None, t_updatedAt := now\<rparr>) d1)
               else (Inr newResponse, d1))"

subsection \<open>DELETE api/tickets/:id\<close>

definition delete_ticket :: "actor \<Rightarrow> oid \<Rightarrow> db \<Rightarrow> (error + string) \<times> db" where
  "delete_ticket user i d =
     (if \<not> authorize [''admin''] user then (Inl (Forbidden ''Not authorized for this action''), d)
      else case Ticket_findById d i of
        None \<Rightarrow> (Inl (NotFound ''Ticket not found''), d)
      | Some ticket \<Rightarrow>
          if t_organizationId ticket \<noteq> a_organizationId user
          then (Inl (Forbidden ''Not authorized to delete this ticket''), d)
          else (Inr ''Ticket removed'', Ticket_remove ticket (TicketResponse_deleteMany (t_id ticket) d)))"

section \<open>User routes\<close>

text \<open>Every user route runs \<^verbatim>\<open>authorize('admin')\<close> before its validators and its
  handler.\<close>

definition User_findById :: "db \<Rightarrow> oid \<Rightarrow> user option" where
  "User_findById d i = find (\<lambda>u. u_id u = i) (users d)"

definition User_findOne :: "db \<Rightarrow> string \<Rightarrow> user option" where
  "User_findOne d e = find (\<lambda>u. email u = e) (users d)"

definition User_save :: "user \<Rightarrow> db \<Rightarrow> db" where
  "User_save u d = d\<lparr>users := map (\<lambda>x. if u_id x = u_id u then u else x) (users d)\<rparr>"

definition User_insert :: "user \<Rightarrow> db \<Rightarrow> db" where
  "User_insert u d = d\<lparr>users := users d @ [u]\<rparr>"

definition User_remove :: "user \<Rightarrow> db \<Rightarrow> db" where
  "User_remove u d = d\<lparr>users := filter (\<lambda>x. u_id x \<noteq> u_id u) (users d)\<rparr>"

subsection \<open>GET api/users and GET api/users/:id\<close>

definition get_users :: "actor \<Rightarrow> db \<Rightarrow> error + user list" where
  "get_users user d =
     (if \<not> authorize [''admin''] user then Inl (Forbidden ''Not authorized for this action'')
      else Inr (filter (\<lambda>u. u_organizationId u = a_organizationId user) (users d)))"

definition get_user :: "actor \<Rightarrow> oid \<Rightarrow> db \<Rightarrow> error + user" where
  "get_user user i d =
     (if \<not> authorize [''admin''] user then Inl (Forbidden ''Not authorized for this action'')
      else case User_findById d i of
        None \<Rightarrow> Inl (NotFound ''User not found'')
      | Some u \<Rightarrow>
          if u_organizationId u \<noteq> a_organizationId user
          then Inl (Forbidden ''Not authorized to access this user'')
          else Inr u)"

subsection \<open>PUT api/users/:id\<close>

record user_body =
  b_firstName :: "string option"
  b_lastName :: "string option"
  b_role :: "string option"
  b_isActive :: "bool option"

definition valid_user_body :: "user_body \<Rightarrow> bool" where
  "valid_user_body b =
     (optional_notEmpty (b_firstName b) \<and> optional_notEmpty (b_lastName b)
      \<and> optional_isIn [''admin'', ''agent'', ''customer''] (b_role b))"

definition update_fields :: "user_body \<Rightarrow> user \<Rightarrow> user" where
  "update_fields b u =
     (let u1 = (if truthy (b_firstName b) then u\<lparr>firstName := the (b_firstName b)\<rparr> else u);
          u2 = (if truthy (b_lastName b) then u1\<lparr>lastName := the (b_lastName b)\<rparr> else u1);
          u3 = (if truthy (b_role b) then u2\<lparr>u_role := the (b_role b)\<rparr> else u2)
      in case b_isActive b of None \<Rightarrow> u3 | Some v \<Rightarrow> u3\<lparr>isActive := v\<rparr>)"

definition put_user ::
  "time \<Rightarrow> actor \<Rightarrow> oid \<Rightarrow> user_body \<Rightarrow> db \<Rightarrow> (error + user) \<times> db" where
  "put_user now user i b d =
     (if \<not> authorize [''admin''] user then (Inl (Forbidden ''Not authorized for this action''), d)
      else if \<not> valid_user_body b then (Inl ValidationFailed, d)
      else case User_findById d i of
        None \<Rightarrow> (Inl (NotFound ''User not found''), d)
      | Some u \<Rightarrow>
          if u_organizationId u \<noteq> a_organizationId user
          then (Inl (Forbidden ''Not authorized to update this user''), d)
          else let u' = (update_fields b u)\<lparr>u_updatedAt := now\<rparr>
               in (Inr u', User_save u' d))"

subsection \<open>DELETE api/users/:id\<close>

definition delete_user :: "actor \<Rightarrow> oid \<Rightarrow> db \<Rightarrow> (error + string) \<times> db" where
  "delete_user user i d =
     (if \<not> authorize [''admin''] user then (Inl (Forbidden ''Not authorized for this action''), d)
      else case User_findById d i of
        None \<Rightarrow> (Inl (NotFound ''User not found''), d)
      | Some u \<Rightarrow>
          if u_organizationId u \<noteq> a_organizationId user
          then (Inl (Forbidden ''Not authorized to delete this user''), d)
          else if parentUserId u = None
          then (Inl (BadRequest ''Cannot delete the main admin account''), d)
          else (Inr ''User removed'', User_remove u d))"

subsection \<open>POST api/auth/subuser\<close>

record subuser_body =
  sb_email :: string
  sb_password :: string
  sb_firstName :: string
  sb_lastName :: string
  sb_role :: string

text \<open>The e-mail syntax check of the validator library is the parameter \<open>isEmail\<close>.\<close>

definition valid_subuser_body :: "(string \<Rightarrow> bool) \<Rightarrow> subuser_body \<Rightarrow> bool" where
  "valid_subuser_body isEmail b =
     (isEmail (sb_email b) \<and> 6 \<le> length (sb_password b) \<and> sb_firstName b \<noteq> []
      \<and> sb_lastName b \<noteq> [] \<and> sb_role b \<in> set [''agent'', ''customer''])"

text \<open>Modelled from the spec: the User schema (\<^verbatim>\<open>models/User.js\<close>) is not in the source.
  The handler gives no \<^verbatim>\<open>isActive\<close> and no timestamp, so both are the defaults of the
  schema: a new user is taken to be active, and its timestamp to be the time of creation.
  The password is hashed by the schema and is not part of the model.\<close>

definition new_subuser :: "time \<Rightarrow> oid \<Rightarrow> actor \<Rightarrow> subuser_body \<Rightarrow> user" where
  "new_subuser now newId user b =
     \<lparr>u_id = newId, email = sb_email b, firstName = sb_firstName b, lastName = sb_lastName b,
      u_role = sb_role b, u_organizationId = a_organizationId user,
      parentUserId = Some (a_id user), isActive = True, u_updatedAt = now\<rparr>"

definition post_subuser ::
  "(string \<Rightarrow> bool) \<Rightarrow> time \<Rightarrow> oid \<Rightarrow> actor \<Rightarrow> subuser_body \<Rightarrow> db \<Rightarrow> (error + oid) \<times> db" where
  "post_subuser isEmail now newId user b d =
     (if \<not> authorize [''admin''] user then (Inl (Forbidden ''Not authorized for this action''), d)
      else if \<not> valid_subuser_body isEmail b then (Inl ValidationFailed, d)
      else case User_findOne d (sb_email b) of
        Some existingUser \<Rightarrow> (Inl (BadRequest ''User already exists''), d)
      | None \<Rightarrow>
          let u = new_subuser now newId user b
          in (Inr (u_id u), User_insert u d))"

text \<open>The number of active users of an organization, and its ceiling: the quantities
  that an entitlement check would compare. No handler above reads either.\<close>

definition active_user_count :: "db \<Rightarrow> oid \<Rightarrow> nat" where
  "active_user_count d org =
     length (filter (\<lambda>u. u_organizationId u = org \<and> isActive u) (users d))"

definition org_maxUsers :: "db \<Rightarrow> oid \<Rightarrow> nat" where
  "org_maxUsers d org =
     (case find (\<lambda>g. o_id g = org) (organizations d) of None \<Rightarrow> 5 | Some g \<Rightarrow> maxUsers g)"

section \<open>The serverless users function\<close>

text \<open>
  \<^verbatim>\<open>netlify/functions/users.js\<close> works on the \<^verbatim>\<open>users\<close> table of Supabase with the service
  key. The caller is the user of the bearer token (\<open>None\<close> when the token is missing or
  invalid). The route is chosen by the path and the method; a path of hexadecimal digits
  and dashes, \<^verbatim>\<open>/^[0-9a-fA-F-]+$/\<close>, is a user id. The counter of the organization and the
  table of the authentication service, which the DELETE case updates afterwards, are other
  tables and are left out.
\<close>

record user_row =
  row_id :: oid
  row_email :: string
  first_name :: string
  last_name :: string
  row_role :: string
  organization_id :: "oid option"
  row_status :: string

definition is_id_path :: "string \<Rightarrow> bool" where
  "is_id_path p = (p \<noteq> [] \<and> list_all (\<lambda>c. c \<in> set ''0123456789abcdefABCDEF-'') p)"

definition users_handler_DELETE ::
  "oid option \<Rightarrow> string \<Rightarrow> user_row list \<Rightarrow> nat \<times> user_row list" where
  "users_handler_DELETE caller path rows =
     (case caller of
        None \<Rightarrow> (401, rows)
      | Some user \<Rightarrow>
          if is_id_path path then (200, filter (\<lambda>r. row_id r \<noteq> path) rows)
          else (404, rows))"

section \<open>Denials\<close>

text \<open>A request is denied when the handler answers 400 or 403.\<close>

definition denied :: "(error + 'a) \<Rightarrow> bool" where
  "denied r = (case r of Inl e \<Rightarrow> statusCode e = 400 \<or> statusCode e = 403 | Inr v \<Rightarrow> False)"

text \<open>The half of the timestamp rule that the routes keep: a ticket that is not
  \<open>resolved\<close> has no \<open>resolvedAt\<close>.\<close>

definition resolvedAt_ok :: "ticket \<Rightarrow> bool" where
  "resolvedAt_ok t = (if status t = ''resolved'' then True else resolvedAt t = None)"

section \<open>Example data\<close>

text \<open>A help desk with one organization of five active users and a ceiling of five, a
  customer of a second organization, two tickets and three responses. The ids are
  ObjectIds; the times are milliseconds.\<close>

definition org1_admin :: actor where
  "org1_admin = \<lparr>a_id = ''60b000000000000000000001'', a_role = ''admin'',
     a_organizationId = ''60a000000000000000000001''\<rparr>"

definition org1_agent :: actor where
  "org1_agent = \<lparr>a_id = ''60b000000000000000000002'', a_role = ''agent'',
     a_organizationId = ''60a000000000000000000001''\<rparr>"

definition org1_customer :: actor where
  "org1_customer = \<lparr>a_id = ''60b000000000000000000003'', a_role = ''customer'',
     a_organizationId = ''60a000000000000000000001''\<rparr>"

definition org2_admin :: actor where
  "org2_admin = \<lparr>a_id = ''60b000000000000000000008'', a_role = ''admin'',
     a_organizationId = ''60a000000000000000000002''\<rparr>"

definition root_user :: user where
  "root_user = \<lparr>u_id = ''60b000000000000000000001'', email = ''ada@one.example'',
     firstName = ''Ada'', lastName = ''Root'', u_role = ''admin'',
     u_organizationId = ''60a000000000000000000001'', parentUserId = None,
     isActive = True, u_updatedAt = 1700000000001\<rparr>"

definition agent_user :: user where
  "agent_user = \<lparr>u_id = ''60b000000000000000000002'', email = ''bo@one.example'',
     firstName = ''Bo'', lastName = ''Agent'', u_role = ''agent'',
     u_organizationId = ''60a000000000000000000001'',
     parentUserId = Some ''60b000000000000000000001'', isActive = True,
     u_updatedAt = 1700000000002\<rparr>"

definition customer_user :: user where
  "customer_user = \<lparr>u_id = ''60b000000000000000000003'', email = ''cy@one.example'',
     firstName = ''Cy'', lastName = ''Client'', u_role = ''customer'',
     u_organizationId = ''60a000000000000000000001'',
     parentUserId = Some ''60b000000000000000000001'', isActive = True,
     u_updatedAt = 1700000000003\<rparr>"

definition agent_user2 :: user where
  "agent_user2 = \<lparr>u_id = ''60b000000000000000000004'', email = ''di@one.example'',
     firstName = ''Di'', lastName = ''Agent'', u_role = ''agent'',
     u_organizationId = ''60a000000000000000000001'',
     parentUserId = Some ''60b000000000000000000001'', isActive = True,
     u_updatedAt = 1700000000004\<rparr>"

definition customer_user2 :: user where
  "customer_user2 = \<lparr>u_id = ''60b000000000000000000005'', email = ''ed@one.example'',
     firstName = ''Ed'', lastName = ''Client'', u_role = ''customer'',
     u_organizationId = ''60a000000000000000000001'',
     parentUserId = Some ''60b000000000000000000001'', isActive = True,
     u_updatedAt = 1700000000005\<rparr>"

definition outsider_user :: user where
  "outsider_user = \<lparr>u_id = ''60b000000000000000000009'', email = ''flo@two.example'',
     firstName = ''Flo'', lastName = ''Other'', u_role = ''customer'',
     u_organizationId = ''60a000000000000000000002'',
     parentUserId = Some ''60b000000000000000000008'', isActive = True,
     u_updatedAt = 1700000000006\<rparr>"

definition open_ticket :: ticket where
  "open_ticket = \<lparr>t_id = ''60c000000000000000000001'', title = ''Printer'',
     description = ''It is on fire'', category = ''hardware'', priority = ''medium'',
     status = ''open'', createdBy = ''60b000000000000000000003'', assignedTo = None,
     t_organizationId = ''60a000000000000000000001'', resolvedAt = None,
     t_updatedAt = 1700000000010\<rparr>"

definition resolved_ticket :: ticket where
  "resolved_ticket = \<lparr>t_id = ''60c000000000000000000002'', title = ''Login'',
     description = ''Password lost'', category = ''account'', priority = ''high'',
     status = ''resolved'', createdBy = ''60b000000000000000000003'',
     assignedTo = Some ''60b000000000000000000002'',
     t_organizationId = ''60a000000000000000000001'', resolvedAt = Some 1700000000020,
     t_updatedAt = 1700000000020\<rparr>"

definition note1 :: response where
  "note1 = \<lparr>r_id = ''60d000000000000000000001'', ticketId = ''60c000000000000000000001'',
     userId = ''60b000000000000000000002'', content = ''Ask for the model'',
     isInternal = True, r_createdAt = 1700000000011\<rparr>"

definition reply1 :: response where
  "reply1 = \<lparr>r_id = ''60d000000000000000000002'', ticketId = ''60c000000000000000000001'',
     userId = ''60b000000000000000000002'', content = ''Which model?'',
     isInternal = False, r_createdAt = 1700000000012\<rparr>"

definition reply2 :: response where
  "reply2 = \<lparr>r_id = ''60d000000000000000000003'', ticketId = ''60c000000000000000000002'',
     userId = ''60b000000000000000000002'', content = ''Reset sent'',
     isInternal = False, r_createdAt = 1700000000019\<rparr>"

definition org1 :: organization where
  "org1 = \<lparr>o_id = ''60a000000000000000000001'', o_name = ''One'', maxUsers = 5\<rparr>"

definition desk :: db where
  "desk = \<lparr>tickets = [open_ticket, resolved_ticket], responses = [note1, reply1, reply2],
     users = [root_user, agent_user, customer_user, agent_user2, customer_user2, outsider_user],
     organizations = [org1]\<rparr>"

text \<open>Requests.\<close>

definition no_fields :: ticket_body where
  "no_fields = \<lparr>b_title = None, b_description = None, b_status = None, b_priority = None,
     b_category = None, b_assignedTo = None\<rparr>"

definition resolve_it :: ticket_body where
  "resolve_it = no_fields\<lparr>b_status := Some ''resolved''\<rparr>"

definition assign_outsider :: ticket_body where
  "assign_outsider = no_fields\<lparr>b_assignedTo := Some ''60b000000000000000000009''\<rparr>"

definition customer_edit :: ticket_body where
  "customer_edit = \<lparr>b_title = Some ''Printer again'', b_description = None,
     b_status = Some ''archived'', b_priority = Some ''urgent'', b_category = None,
     b_assignedTo = Some ''60b000000000000000000009''\<rparr>"

definition no_filter :: ticket_query where
  "no_filter = \<lparr>q_status = None, q_search = None\<rparr>"

definition only_resolved :: ticket_query where
  "only_resolved = \<lparr>q_status = Some ''resolved'', q_search = None\<rparr>"

definition any_text :: "string \<Rightarrow> ticket \<Rightarrow> bool" where
  "any_text s t = True"

definition follow_up :: response_body where
  "follow_up = \<lparr>b_content = ''Still broken'', b_isInternal = None\<rparr>"

definition follow_up_response :: response where
  "follow_up_response = \<lparr>r_id = ''60d000000000000000000004'',
     ticketId = ''60c000000000000000000002'', userId = ''60b000000000000000000003'',
     content = ''Still broken'', isInternal = False, r_createdAt = 1700000000030\<rparr>"

definition deactivate :: user_body where
  "deactivate = \<lparr>b_firstName = None, b_lastName = None, b_role = None, b_isActive = Some False\<rparr>"

definition new_agent :: subuser_body where
  "new_agent = \<lparr>sb_email = ''gus@one.example'', sb_password = ''secret1'',
     sb_firstName = ''Gus'', sb_lastName = ''New'', sb_role = ''agent''\<rparr>"

definition new_user_id :: oid where
  "new_user_id = ''60b000000000000000000006''"

definition has_at :: "string \<Rightarrow> bool" where
  "has_at s = (CHR ''@'' \<in> set s)"

text \<open>Two rows of the Supabase table, of two organizations.\<close>

definition row_a :: user_row where
  "row_a = \<lparr>row_id = ''11111111-1111-4111-8111-111111111111'', row_email = ''ann@one.example'',
     first_name = ''Ann'', last_name = ''Caller'', row_role = ''customer'',
     organization_id = Some ''aaaaaaaa-aaaa-4aaa-8aaa-aaaaaaaaaaaa'', row_status = ''active''\<rparr>"

definition row_b :: user_row where
  "row_b = \<lparr>row_id = ''22222222-2222-4222-8222-222222222222'', row_email = ''ben@two.example'',
     first_name = ''Ben'', last_name = ''Target'', row_role = ''admin'',
     organization_id = Some ''bbbbbbbb-bbbb-4bbb-8bbb-bbbbbbbbbbbb'', row_status = ''active''\<rparr>"

lemmas example_defs = org1_admin_def org1_agent_def org1_customer_def org2_admin_def
  root_user_def agent_user_def customer_user_def agent_user2_def customer_user2_def
  outsider_user_def open_ticket_def resolved_ticket_def note1_def reply1_def reply2_def
  org1_def desk_def

lemmas validator_defs = valid_ticket_body_def optional_notEmpty_def optional_isIn_def
  optional_isMongoId_def isMongoId_def isHexadecimal_def statuses_def priorities_def truthy_def

section \<open>Lemmas on the collections and the update functions\<close>

lemma find_id_map_update:
  "find (\<lambda>t. f t = i) ts = Some t \<Longrightarrow> f t' = i \<Longrightarrow>
   find (\<lambda>x. f x = i) (map (\<lambda>x. if f x = i then t' else x) ts) = Some t'"
  by (induction ts) (auto split: if_splits)

lemma find_id_filter_out: "find (\<lambda>x. f x = i) (filter (\<lambda>x. f x \<noteq> i) ts) = None"
  by (induction ts) auto

lemma Ticket_findById_id: "Ticket_findById d i = Some t \<Longrightarrow> t_id t = i"
  unfolding Ticket_findById_def by (auto simp: find_Some_iff)

lemma Ticket_findById_mem: "Ticket_findById d i = Some t \<Longrightarrow> t \<in> set (tickets d)"
  unfolding Ticket_findById_def by (auto simp: find_Some_iff)

lemma Ticket_findById_save:
  "Ticket_findById d i = Some t \<Longrightarrow> t_id t' = i \<Longrightarrow> Ticket_findById (Ticket_save t' d) i = Some t'"
  unfolding Ticket_findById_def Ticket_save_def by (simp add: find_id_map_update)

lemma User_findById_id: "User_findById d i = Some u \<Longrightarrow> u_id u = i"
  unfolding User_findById_def by (auto simp: find_Some_iff)

lemma customer_update_frame:
  "t_id (customer_update b t) = t_id t \<and> status (customer_update b t) = status t
   \<and> priority (customer_update b t) = priority t \<and> assignedTo (customer_update b t) = assignedTo t
   \<and> createdBy (customer_update b t) = createdBy t
   \<and> t_organizationId (customer_update b t) = t_organizationId t
   \<and> resolvedAt (customer_update b t) = resolvedAt t"
  by (simp add: customer_update_def Let_def)

lemma customer_update_fields:
  "title (customer_update b t) = (if truthy (b_title b) then the (b_title b) else title t)
   \<and> description (customer_update b t) = (if truthy (b_description b) then the (b_description b) else description t)
   \<and> category (customer_update b t) = (if truthy (b_category b) then the (b_category b) else category t)"
  by (simp add: customer_update_def Let_def)

lemma set_status_resolvedAt:
  "resolvedAt (set_status now s t) = (if s = ''resolved'' then resolvedAt t else None)"
  by (simp add: set_status_def Let_def)

lemma set_status_status: "status (set_status now s t) = s"
  by (simp add: set_status_def Let_def)

lemma staff_update_status:
  "status (staff_update now b t) = (if truthy (b_status b) then the (b_status b) else status t)"
  by (simp add: staff_update_def Let_def set_status_def)

lemma staff_update_resolvedAt:
  "resolvedAt (staff_update now b t) =
     (if truthy (b_status b) \<and> the (b_status b) \<noteq> ''resolved'' then None else resolvedAt t)"
  by (simp add: staff_update_def Let_def set_status_resolvedAt) 

lemma staff_update_assignedTo:
  "assignedTo (staff_update now b t) = (if truthy (b_assignedTo b) then b_assignedTo b else assignedTo t)"
  by (simp add: staff_update_def Let_def set_status_def)

section \<open>Tenant isolation\<close>

text \<open>
  In the Express server every route on a ticket or a user of another organization is
  refused, for every role, and the database stays as it was; the lists leave such a
  ticket or user out.
\<close>

lemma express_ticket_isolation:
  assumes "Ticket_findById d i = Some t"
    and "t_organizationId t \<noteq> a_organizationId user"
  shows "get_ticket user i d = Inl (Forbidden ''Not authorized to access this ticket'')"
    and "denied (fst (put_ticket now user i b d)) \<and> snd (put_ticket now user i b d) = d"
    and "denied (fst (post_response now newId user i rb d)) \<and> snd (post_response now newId user i rb d) = d"
    and "denied (fst (delete_ticket user i d)) \<and> snd (delete_ticket user i d) = d"
    and "t \<notin> set (get_tickets text_search user q d)"
  using assms
  by (simp_all add: get_ticket_def put_ticket_def post_response_def delete_ticket_def denied_def
      get_tickets_def query_matches_def)

lemma express_user_isolation:
  assumes "User_findById d i = Some u"
    and "u_organizationId u \<noteq> a_organizationId user"
  shows "denied (get_user user i d)"
    and "denied (fst (put_user now user i b d)) \<and> snd (put_user now user i b d) = d"
    and "denied (fst (delete_user user i d)) \<and> snd (delete_user user i d) = d"
    and "\<forall>us. get_users user d = Inr us \<longrightarrow> u \<notin> set us"
  using assms
  by (auto simp add: get_user_def put_user_def delete_user_def denied_def get_users_def)

text \<open>
  Claim C1, tenant isolation: every operation on a ticket or user of another organization
  is denied, for every role. The DELETE case of the serverless users function does not
  keep it. Whoever the caller is, and whatever the organizations of the caller and of the
  row are, a path that is a user id is answered with 200 and the row of that id is gone.
  The handler reads \<^verbatim>\<open>organization_id\<close> of the row only to update the user counter.
\<close>

theorem users_handler_DELETE_ignores_organization:
  assumes "is_id_path path"
  shows "users_handler_DELETE (Some caller) path rows = (200, filter (\<lambda>r. row_id r \<noteq> path) rows)"
  using assms by (simp add: users_handler_DELETE_def)

theorem users_handler_DELETE_ignores_organization_witness:
  "organization_id row_a \<noteq> organization_id row_b
   \<and> is_id_path (row_id row_b)
   \<and> users_handler_DELETE (Some (row_id row_a)) (row_id row_b) [row_a, row_b] = (200, [row_a])"
proof -
  have p: "is_id_path (row_id row_b)"
    by (simp add: is_id_path_def row_b_def)
  from users_handler_DELETE_ignores_organization [OF p, of "row_id row_a" "[row_a, row_b]"]
  have "users_handler_DELETE (Some (row_id row_a)) (row_id row_b) [row_a, row_b] = (200, [row_a])"
    by (simp add: row_a_def row_b_def)
  with p show ?thesis
    by (simp add: row_a_def row_b_def)
qed

section \<open>The timestamp of resolution\<close>

text \<open>
  Claim C2, resolved timestamp: \<open>resolvedAt\<close> is set iff the status is \<open>resolved\<close>, and the
  update that sets the status to \<open>resolved\<close> sets \<open>resolvedAt\<close> to the current time. The
  handler does not do so. When an actor who is not a customer sends a valid update with
  status \<open>resolved\<close> for a ticket of the actor's organization, the update succeeds, the
  status becomes \<open>resolved\<close> and \<open>resolvedAt\<close> keeps the value it had: the handler assigns
  the status first and then tests that the status of the ticket is not yet \<open>resolved\<close>.
\<close>

theorem put_ticket_resolved_without_timestamp:
  assumes "a_role user \<noteq> ''customer''"
    and "Ticket_findById d i = Some t"
    and "t_organizationId t = a_organizationId user"
    and "valid_ticket_body b"
    and "b_status b = Some ''resolved''"
  shows "\<exists>t'. put_ticket now user i b d = (Inr t', Ticket_save t' d)
            \<and> status t' = ''resolved'' \<and> resolvedAt t' = resolvedAt t"
  using assms
  by (simp add: put_ticket_def Let_def staff_update_status staff_update_resolvedAt truthy_def)

theorem put_ticket_resolved_without_timestamp_witness:
  "status open_ticket = ''open'' \<and> resolvedAt open_ticket = None
   \<and> fst (put_ticket 1700000000050 org1_admin (t_id open_ticket) resolve_it desk)
       = Inr (open_ticket\<lparr>status := ''resolved'', t_updatedAt := 1700000000050\<rparr>)
   \<and> resolvedAt (open_ticket\<lparr>status := ''resolved'', t_updatedAt := 1700000000050\<rparr>) = None"
proof -
  let ?t' = "open_ticket\<lparr>status := ''resolved'', t_updatedAt := 1700000000050\<rparr>"
  have a: "a_role org1_admin \<noteq> ''customer''"
    by (simp add: org1_admin_def)
  have found: "Ticket_findById desk (t_id open_ticket) = Some open_ticket"
    by (simp add: Ticket_findById_def example_defs resolve_it_def no_fields_def)
  have org: "t_organizationId open_ticket = a_organizationId org1_admin"
    by (simp add: example_defs resolve_it_def no_fields_def)
  have valid: "valid_ticket_body resolve_it"
    by (simp add: validator_defs example_defs resolve_it_def no_fields_def)
  have st: "b_status resolve_it = Some ''resolved''"
    by (simp add: example_defs resolve_it_def no_fields_def)
  from put_ticket_resolved_without_timestamp [OF a found org valid st, of 1700000000050]
  obtain t' where run: "put_ticket 1700000000050 org1_admin (t_id open_ticket) resolve_it desk = (Inr t', Ticket_save t' desk)"
    and r: "status t' = ''resolved''" "resolvedAt t' = resolvedAt open_ticket"
    by blast
  have "fst (put_ticket 1700000000050 org1_admin (t_id open_ticket) resolve_it desk) = Inr ?t'"
    by (simp add: put_ticket_def Let_def Ticket_findById_def staff_update_def set_status_def
        validator_defs example_defs resolve_it_def no_fields_def)
  with run have "t' = ?t'"
    by simp
  with run r show ?thesis
    by (simp add: open_ticket_def)
qed

text \<open>The other half of the rule holds: no update and no response leaves a ticket that
  is not \<open>resolved\<close> with a \<open>resolvedAt\<close>.\<close>

lemma staff_update_resolvedAt_ok: "resolvedAt_ok t \<Longrightarrow> resolvedAt_ok (staff_update now b t)"
  by (simp add: resolvedAt_ok_def staff_update_status staff_update_resolvedAt)

lemma customer_update_resolvedAt_ok: "resolvedAt_ok t \<Longrightarrow> resolvedAt_ok (customer_update b t)"
  using customer_update_frame [of b t] by (simp add: resolvedAt_ok_def)

lemma Ticket_save_resolvedAt_ok:
  "list_all resolvedAt_ok (tickets d) \<Longrightarrow> resolvedAt_ok t \<Longrightarrow>
   list_all resolvedAt_ok (tickets (Ticket_save t d))"
  by (auto simp: Ticket_save_def list_all_iff)

lemma put_ticket_resolvedAt_ok:
  assumes "list_all resolvedAt_ok (tickets d)"
  shows "list_all resolvedAt_ok (tickets (snd (put_ticket now user i b d)))"
proof (cases "Ticket_findById d i")
  case None
  then show ?thesis
    using assms by (simp add: put_ticket_def)
next
  case (Some t)
  then have "resolvedAt_ok t"
    using assms Ticket_findById_mem [OF Some] by (simp add: list_all_iff)
  then have "resolvedAt_ok ((staff_update now b t)\<lparr>t_updatedAt := now\<rparr>)"
    and "resolvedAt_ok ((customer_update b t)\<lparr>t_updatedAt := now\<rparr>)"
    using staff_update_resolvedAt_ok [of t now b] customer_update_resolvedAt_ok [of t b]
    by (simp_all add: resolvedAt_ok_def)
  then show ?thesis
    using assms Some by (simp add: put_ticket_def Let_def Ticket_save_resolvedAt_ok)
qed

lemma post_response_resolvedAt_ok:
  assumes "list_all resolvedAt_ok (tickets d)"
  shows "list_all resolvedAt_ok (tickets (snd (post_response now newId user i b d)))"
proof (cases "Ticket_findById d i")
  case None
  then show ?thesis
    using assms by (simp add: post_response_def)
next
  case (Some t)
  have "resolvedAt_ok (t\<lparr>status := ''open'', resolvedAt := None, t_updatedAt := now\<rparr>)"
    by (simp add: resolvedAt_ok_def)
  moreover have "list_all resolvedAt_ok (tickets (TicketResponse_save r d))" for r
    using assms by (simp add: TicketResponse_save_def)
  ultimately show ?thesis
    using assms Some by (simp add: post_response_def Let_def Ticket_save_resolvedAt_ok)
qed

section \<open>Reopening on a response\<close>

text \<open>
  Claim C3, reopen on response. When \<^verbatim>\<open>POST api/tickets/:id/responses\<close> succeeds on the
  ticket \<open>t\<close>, whatever the role of the author: if \<open>t\<close> was \<open>resolved\<close> or \<open>archived\<close>, the
  stored ticket is \<open>t\<close> with status \<open>open\<close> and \<open>resolvedAt\<close> cleared (and a new
  \<open>updatedAt\<close>); in every other status no ticket of the database changes.
\<close>

theorem post_response_reopens:
  assumes ok: "post_response now newId user i b d = (Inr r, d')"
    and found: "Ticket_findById d i = Some t"
  shows "if status t = ''resolved'' \<or> status t = ''archived''
         then Ticket_findById d' i = Some (t\<lparr>status := ''open'', resolvedAt := None, t_updatedAt := now\<rparr>)
         else tickets d' = tickets d"
proof -
  have tid: "t_id t = i"
    using found by (rule Ticket_findById_id)
  let ?d1 = "TicketResponse_save r d"
  have f1: "Ticket_findById ?d1 i = Some t"
    using found by (simp add: Ticket_findById_def TicketResponse_save_def)
  show ?thesis
  proof (cases "status t = ''resolved'' \<or> status t = ''archived''")
    case True
    then have "d' = Ticket_save (t\<lparr>status := ''open'', resolvedAt := None, t_updatedAt := now\<rparr>) ?d1"
      using ok found by (auto simp: post_response_def Let_def split: if_splits)
    then show ?thesis
      using True f1 tid by (simp add: Ticket_findById_save)
  next
    case False
    then have "d' = ?d1"
      using ok found by (auto simp: post_response_def Let_def split: if_splits)
    then show ?thesis
      using False by (simp add: TicketResponse_save_def)
  qed
qed

theorem post_response_reopens_witness:
  "Ticket_findById desk (t_id resolved_ticket) = Some resolved_ticket
   \<and> status resolved_ticket = ''resolved''
   \<and> fst (post_response 1700000000030 (r_id follow_up_response) org1_customer (t_id resolved_ticket) follow_up desk) = Inr follow_up_response
   \<and> Ticket_findById (snd (post_response 1700000000030 (r_id follow_up_response) org1_customer (t_id resolved_ticket) follow_up desk)) (t_id resolved_ticket)
       = Some (resolved_ticket\<lparr>status := ''open'', resolvedAt := None, t_updatedAt := 1700000000030\<rparr>)"
proof -
  have found: "Ticket_findById desk (t_id resolved_ticket) = Some resolved_ticket"
    by (simp add: Ticket_findById_def example_defs follow_up_def follow_up_response_def)
  have st: "status resolved_ticket = ''resolved''"
    by (simp add: resolved_ticket_def)
  have ok: "fst (post_response 1700000000030 (r_id follow_up_response) org1_customer (t_id resolved_ticket) follow_up desk) = Inr follow_up_response"
    by (simp add: post_response_def Let_def Ticket_findById_def example_defs follow_up_def follow_up_response_def)
  then have run: "post_response 1700000000030 (r_id follow_up_response) org1_customer (t_id resolved_ticket) follow_up desk
      = (Inr follow_up_response, snd (post_response 1700000000030 (r_id follow_up_response) org1_customer (t_id resolved_ticket) follow_up desk))"
    by (simp add: prod_eq_iff)
  from post_response_reopens [OF run found] st
  have "Ticket_findById (snd (post_response 1700000000030 (r_id follow_up_response) org1_customer (t_id resolved_ticket) follow_up desk)) (t_id resolved_ticket)
       = Some (resolved_ticket\<lparr>status := ''open'', resolvedAt := None, t_updatedAt := 1700000000030\<rparr>)"
    by simp
  with found st ok show ?thesis
    by blast
qed

section \<open>The root admin\<close>

text \<open>
  Claim C4, root admin protection, as amended. Let \<open>u\<close> be a user without
  \<open>parentUserId\<close>. \<^verbatim>\<open>DELETE api/users/:id\<close> on \<open>u\<close> fails for every actor and leaves the
  database as it was. The answer is the 400 \<open>Cannot delete the main admin account\<close> when
  the actor is an admin of the organization of \<open>u\<close>; an actor who is not an admin, and an
  admin of another organization, are refused with 403 before the guard is reached.
\<close>

theorem delete_user_root_admin_protected:
  assumes "User_findById d i = Some u"
    and "parentUserId u = None"
  shows "snd (delete_user user i d) = d
       \<and> fst (delete_user user i d) =
           Inl (if a_role user \<noteq> ''admin'' then Forbidden ''Not authorized for this action''
                else if u_organizationId u \<noteq> a_organizationId user
                then Forbidden ''Not authorized to delete this user''
                else BadRequest ''Cannot delete the main admin account'')"
  using assms by (simp add: delete_user_def authorize_def)

theorem delete_user_root_admin_protected_witness:
  "User_findById desk (u_id root_user) = Some root_user \<and> parentUserId root_user = None
   \<and> snd (delete_user org1_admin (u_id root_user) desk) = desk
   \<and> fst (delete_user org1_admin (u_id root_user) desk) = Inl (BadRequest ''Cannot delete the main admin account'')"
proof -
  have found: "User_findById desk (u_id root_user) = Some root_user"
    by (simp add: User_findById_def example_defs)
  have root: "parentUserId root_user = None"
    by (simp add: root_user_def)
  from delete_user_root_admin_protected [OF found root, of org1_admin]
  have "snd (delete_user org1_admin (u_id root_user) desk) = desk
      \<and> fst (delete_user org1_admin (u_id root_user) desk) = Inl (BadRequest ''Cannot delete the main admin account'')"
    by (simp add: org1_admin_def root_user_def)
  with found root show ?thesis
    by blast
qed

text \<open>The claim as it was stated, with the protection error for every actor, fails: an
  agent of the same organization and an admin of another one get 403.\<close>

theorem delete_user_root_admin_counterexample:
  "User_findById desk (u_id root_user) = Some root_user
   \<and> parentUserId root_user = None \<and> u_role root_user = ''admin''
   \<and> fst (delete_user org1_agent (u_id root_user) desk) = Inl (Forbidden ''Not authorized for this action'')
   \<and> fst (delete_user org2_admin (u_id root_user) desk) = Inl (Forbidden ''Not authorized to delete this user'')"
  by (simp add: delete_user_def authorize_def User_findById_def example_defs)

text \<open>\<^verbatim>\<open>PUT api/users/:id\<close> has no such guard: an admin of the organization can set
  \<open>isActive\<close> of the root admin to false.\<close>

lemma put_user_deactivates_root_admin:
  "fst (put_user 1700000000060 org1_admin (u_id root_user) deactivate desk)
     = Inr (root_user\<lparr>isActive := False, u_updatedAt := 1700000000060\<rparr>)
   \<and> User_findById (snd (put_user 1700000000060 org1_admin (u_id root_user) deactivate desk)) (u_id root_user)
     = Some (root_user\<lparr>isActive := False, u_updatedAt := 1700000000060\<rparr>)"
  by (simp add: put_user_def authorize_def valid_user_body_def optional_notEmpty_def
      optional_isIn_def update_fields_def truthy_def User_findById_def User_save_def Let_def
      deactivate_def example_defs)

section \<open>The ceiling on users\<close>

text \<open>
  Claim C5, entitlement gate, as amended. \<^verbatim>\<open>POST api/auth/subuser\<close> does not look at
  the number of users or at \<open>maxUsers\<close>. For an admin, a valid body and an e-mail address
  that no user has, it succeeds and stores exactly one new user, so the number of active
  users of the organization grows by one, whatever it was. In every other case it fails
  and the database is as before: a failed creation stores nothing.
\<close>

theorem post_subuser_no_entitlement_gate:
  "(authorize [''admin''] user \<and> valid_subuser_body isEmail b \<and> User_findOne d (sb_email b) = None \<longrightarrow>
      fst (post_subuser isEmail now newId user b d) = Inr newId
      \<and> users (snd (post_subuser isEmail now newId user b d)) = users d @ [new_subuser now newId user b]
      \<and> active_user_count (snd (post_subuser isEmail now newId user b d)) (a_organizationId user)
          = Suc (active_user_count d (a_organizationId user)))
   \<and> (\<not> (authorize [''admin''] user \<and> valid_subuser_body isEmail b \<and> User_findOne d (sb_email b) = None) \<longrightarrow>
      (\<exists>e. fst (post_subuser isEmail now newId user b d) = Inl e)
      \<and> snd (post_subuser isEmail now newId user b d) = d)"
  by (auto simp: post_subuser_def Let_def User_insert_def active_user_count_def new_subuser_def
      split: option.splits)

theorem post_subuser_no_entitlement_gate_witness:
  "authorize [''admin''] org1_admin \<and> valid_subuser_body has_at new_agent
   \<and> User_findOne desk (sb_email new_agent) = None
   \<and> active_user_count desk (o_id org1) = org_maxUsers desk (o_id org1)
   \<and> fst (post_subuser has_at 1700000000070 new_user_id org1_admin new_agent desk) = Inr new_user_id
   \<and> users (snd (post_subuser has_at 1700000000070 new_user_id org1_admin new_agent desk))
       = users desk @ [new_subuser 1700000000070 new_user_id org1_admin new_agent]"
proof -
  have a: "authorize [''admin''] org1_admin"
    by (simp add: authorize_def org1_admin_def)
  have v: "valid_subuser_body has_at new_agent"
    by (simp add: valid_subuser_body_def has_at_def new_agent_def)
  have f: "User_findOne desk (sb_email new_agent) = None"
    by (simp add: User_findOne_def example_defs new_agent_def has_at_def new_user_id_def)
  have full: "active_user_count desk (o_id org1) = org_maxUsers desk (o_id org1)"
    by (simp add: active_user_count_def org_maxUsers_def example_defs new_agent_def has_at_def new_user_id_def)
  from post_subuser_no_entitlement_gate [of org1_admin has_at new_agent desk 1700000000070 "new_user_id"] a v f
  have "fst (post_subuser has_at 1700000000070 new_user_id org1_admin new_agent desk) = Inr new_user_id
      \<and> users (snd (post_subuser has_at 1700000000070 new_user_id org1_admin new_agent desk))
          = users desk @ [new_subuser 1700000000070 new_user_id org1_admin new_agent]"
    by blast
  with a v f full show ?thesis
    by blast
qed

text \<open>The claim as it was stated fails: with five active users and a ceiling of five, the
  creation succeeds and the organization has six active users.\<close>

theorem post_subuser_quota_counterexample:
  "org_maxUsers desk (o_id org1) = 5 \<and> active_user_count desk (o_id org1) = 5
   \<and> fst (post_subuser has_at 1700000000070 new_user_id org1_admin new_agent desk) = Inr new_user_id
   \<and> active_user_count (snd (post_subuser has_at 1700000000070 new_user_id org1_admin new_agent desk)) (o_id org1) = 6"
  by (simp add: post_subuser_def authorize_def valid_subuser_body_def User_findOne_def
      User_insert_def new_subuser_def active_user_count_def org_maxUsers_def Let_def example_defs new_agent_def has_at_def new_user_id_def)

section \<open>Response visibility\<close>

text \<open>
  Claim C6, internal note redaction. For a viewer whose role is \<open>customer\<close> and for every
  list of responses, the list that \<^verbatim>\<open>GET api/tickets/:id\<close> returns (\<open>filteredResponses\<close>)
  holds no response with \<open>isInternal\<close> set; it is a subsequence of the list it was given
  (the order is kept and no response is altered), and every response that is not internal
  occurs in it as often as in the given list.
\<close>

theorem filteredResponses_hides_internal_notes: 
  assumes "a_role user = ''customer''"
  shows "(\<forall>r \<in> set (filteredResponses user rs). \<not> isInternal r)
       \<and> subseq (filteredResponses user rs) rs
       \<and> (\<forall>r. \<not> isInternal r \<longrightarrow> count_list (filteredResponses user rs) r = count_list rs r)"
proof -
  have eq: "filteredResponses user rs = filter (\<lambda>r. \<not> isInternal r) rs"
    using assms by (simp add: filteredResponses_def)
  have "count_list (filter (\<lambda>r. \<not> isInternal r) rs) r = count_list rs r" if "\<not> isInternal r" for r
    using that by (induction rs) auto
  then show ?thesis
    unfolding eq by simp
qed

theorem filteredResponses_hides_internal_notes_witness:
  "a_role org1_customer = ''customer''
   \<and> isInternal note1 \<and> note1 \<notin> set (filteredResponses org1_customer [note1, reply1])
   \<and> subseq (filteredResponses org1_customer [note1, reply1]) [note1, reply1]
   \<and> count_list (filteredResponses org1_customer [note1, reply1]) reply1 = 1"
proof -
  have c: "a_role org1_customer = ''customer''"
    by (simp add: org1_customer_def)
  note th = filteredResponses_hides_internal_notes [OF c, of "[note1, reply1]"]
  have i: "isInternal note1" and n: "\<not> isInternal reply1" and ne: "note1 \<noteq> reply1"
    by (simp_all add: note1_def reply1_def)
  from th i have 1: "note1 \<notin> set (filteredResponses org1_customer [note1, reply1])"
    by blast
  from th have 2: "subseq (filteredResponses org1_customer [note1, reply1]) [note1, reply1]"
    by blast
  from th n have "count_list (filteredResponses org1_customer [note1, reply1]) reply1
      = count_list [note1, reply1] reply1"
    by blast
  then have 3: "count_list (filteredResponses org1_customer [note1, reply1]) reply1 = 1"
    using ne by simp
  show ?thesis
    using c i 1 2 3 by blast
qed

text \<open>What a customer reads: a ticket of their own, with the responses to that ticket that
  are not internal.\<close>

lemma get_ticket_customer:
  assumes "get_ticket user i d = Inr (t, rs)"
    and "a_role user = ''customer''"
  shows "createdBy t = a_id user \<and> list_all (\<lambda>r. \<not> isInternal r \<and> ticketId r = i) rs"
proof -
  from assms have found: "Ticket_findById d i = Some t" and own: "createdBy t = a_id user"
    and rs: "rs = filteredResponses user (TicketResponse_find d (t_id t))"
    by (auto simp: get_ticket_def split: option.splits if_splits)
  have "t_id t = i"
    using found by (rule Ticket_findById_id)
  then show ?thesis
    using own assms(2) by (simp add: rs filteredResponses_def TicketResponse_find_def list_all_iff)
qed

section \<open>Updates by a customer\<close>

text \<open>
  Claim C7, customer update restriction. Let the actor be a customer. If
  \<^verbatim>\<open>PUT api/tickets/:id\<close> succeeds, the ticket is one of the actor's organization that the
  actor created; status, priority, assignee, \<open>resolvedAt\<close>, creator, organization and id
  of the ticket are as before, whatever the body asked for; title, description and
  category are those of the body where the body gives them, and as before otherwise;
  \<open>updatedAt\<close> is the time of the request. And the update does succeed on such a ticket
  for every valid body, also one that names a status, a priority or an assignee.
\<close>

theorem put_ticket_customer_restricted:
  assumes role: "a_role user = ''customer''"
  shows "(\<forall>t' d'. put_ticket now user i b d = (Inr t', d') \<longrightarrow>
            (\<exists>t. Ticket_findById d i = Some t \<and> createdBy t = a_id user
               \<and> t_organizationId t = a_organizationId user
               \<and> status t' = status t \<and> priority t' = priority t \<and> assignedTo t' = assignedTo t
               \<and> resolvedAt t' = resolvedAt t \<and> createdBy t' = createdBy t
               \<and> t_organizationId t' = t_organizationId t \<and> t_id t' = t_id t
               \<and> title t' = (if truthy (b_title b) then the (b_title b) else title t)
               \<and> description t' = (if truthy (b_description b) then the (b_description b) else description t)
               \<and> category t' = (if truthy (b_category b) then the (b_category b) else category t)
               \<and> t_updatedAt t' = now \<and> d' = Ticket_save t' d))
       \<and> (\<forall>t. valid_ticket_body b \<and> Ticket_findById d i = Some t
               \<and> t_organizationId t = a_organizationId user \<and> createdBy t = a_id user \<longrightarrow>
            (\<exists>t'. fst (put_ticket now user i b d) = Inr t'))"
proof (intro conjI allI impI)
  fix t' d'
  assume run: "put_ticket now user i b d = (Inr t', d')"
  then obtain t where found: "Ticket_findById d i = Some t"
    by (auto simp: put_ticket_def split: if_splits option.splits)
  from run found role have own: "createdBy t = a_id user"
    and org: "t_organizationId t = a_organizationId user"
    and t': "t' = (customer_update b t)\<lparr>t_updatedAt := now\<rparr>"
    and d': "d' = Ticket_save t' d"
    by (auto simp: put_ticket_def Let_def split: if_splits)
  show "\<exists>t. Ticket_findById d i = Some t \<and> createdBy t = a_id user
               \<and> t_organizationId t = a_organizationId user
               \<and> status t' = status t \<and> priority t' = priority t \<and> assignedTo t' = assignedTo t
               \<and> resolvedAt t' = resolvedAt t \<and> createdBy t' = createdBy t
               \<and> t_organizationId t' = t_organizationId t \<and> t_id t' = t_id t
               \<and> title t' = (if truthy (b_title b) then the (b_title b) else title t)
               \<and> description t' = (if truthy (b_description b) then the (b_description b) else description t)
               \<and> category t' = (if truthy (b_category b) then the (b_category b) else category t)
               \<and> t_updatedAt t' = now \<and> d' = Ticket_save t' d"
    using found own org d' customer_update_frame [of b t] customer_update_fields [of b t]
    by (intro exI [of _ t]) (simp add: t')
next
  fix t
  assume "valid_ticket_body b \<and> Ticket_findById d i = Some t
               \<and> t_organizationId t = a_organizationId user \<and> createdBy t = a_id user"
  then show "\<exists>t'. fst (put_ticket now user i b d) = Inr t'"
    using role by (simp add: put_ticket_def Let_def)
qed

theorem put_ticket_customer_restricted_witness:
  "a_role org1_customer = ''customer''
   \<and> fst (put_ticket 1700000000050 org1_customer (t_id open_ticket) customer_edit desk)
       = Inr (open_ticket\<lparr>title := ''Printer again'', t_updatedAt := 1700000000050\<rparr>)
   \<and> status (open_ticket\<lparr>title := ''Printer again'', t_updatedAt := 1700000000050\<rparr>) = ''open''
   \<and> priority (open_ticket\<lparr>title := ''Printer again'', t_updatedAt := 1700000000050\<rparr>) = ''medium''
   \<and> assignedTo (open_ticket\<lparr>title := ''Printer again'', t_updatedAt := 1700000000050\<rparr>) = None"
proof -
  let ?t' = "open_ticket\<lparr>title := ''Printer again'', t_updatedAt := 1700000000050\<rparr>"
  have c: "a_role org1_customer = ''customer''"
    by (simp add: org1_customer_def)
  have found: "Ticket_findById desk (t_id open_ticket) = Some open_ticket"
    by (simp add: Ticket_findById_def example_defs customer_edit_def)
  have valid: "valid_ticket_body customer_edit"
    by (simp add: validator_defs example_defs customer_edit_def)
  have own: "t_organizationId open_ticket = a_organizationId org1_customer
      \<and> createdBy open_ticket = a_id org1_customer"
    by (simp add: example_defs customer_edit_def)
  note th = put_ticket_customer_restricted [OF c, of 1700000000050 "t_id open_ticket" customer_edit desk]
  from th valid found own obtain t' where
    ok: "fst (put_ticket 1700000000050 org1_customer (t_id open_ticket) customer_edit desk) = Inr t'"
    by blast
  then have run: "put_ticket 1700000000050 org1_customer (t_id open_ticket) customer_edit desk
      = (Inr t', snd (put_ticket 1700000000050 org1_customer (t_id open_ticket) customer_edit desk))"
    by (simp add: prod_eq_iff)
  from th run found have keep: "status t' = status open_ticket \<and> priority t' = priority open_ticket
      \<and> assignedTo t' = assignedTo open_ticket"
    by auto
  have "fst (put_ticket 1700000000050 org1_customer (t_id open_ticket) customer_edit desk) = Inr ?t'"
    by (simp add: put_ticket_def Let_def Ticket_findById_def customer_update_def validator_defs example_defs customer_edit_def)
  with ok have "t' = ?t'"
    by simp
  with keep ok c show ?thesis
    by (simp add: open_ticket_def)
qed

section \<open>Assignment\<close>

text \<open>
  Claim C8, assignment validity, as amended. For a ticket of the actor's organization and
  a valid body: a customer's update never changes \<open>assignedTo\<close>; an update by any other
  actor that names an assignee succeeds and stores that id as \<open>assignedTo\<close>. The handler
  looks up no user: neither the organization nor the role of the assignee is checked.
\<close>

theorem put_ticket_assignedTo_unchecked:
  assumes found: "Ticket_findById d i = Some t"
    and org: "t_organizationId t = a_organizationId user"
    and valid: "valid_ticket_body b"
  shows "(a_role user = ''customer'' \<longrightarrow>
            (\<forall>t' d'. put_ticket now user i b d = (Inr t', d') \<longrightarrow> assignedTo t' = assignedTo t))
       \<and> (a_role user \<noteq> ''customer'' \<and> truthy (b_assignedTo b) \<longrightarrow>
            (\<exists>t'. put_ticket now user i b d = (Inr t', Ticket_save t' d)
               \<and> assignedTo t' = b_assignedTo b))"
  using assms customer_update_frame [of b t]
  by (auto simp: put_ticket_def Let_def staff_update_assignedTo split: if_splits)

theorem put_ticket_assignedTo_unchecked_witness:
  "Ticket_findById desk (t_id open_ticket) = Some open_ticket
   \<and> t_organizationId open_ticket = a_organizationId org1_agent
   \<and> valid_ticket_body assign_outsider
   \<and> truthy (b_assignedTo assign_outsider)
   \<and> assignedTo (open_ticket\<lparr>assignedTo := Some (u_id outsider_user), t_updatedAt := 1700000000050\<rparr>)
       = b_assignedTo assign_outsider
   \<and> fst (put_ticket 1700000000050 org1_agent (t_id open_ticket) assign_outsider desk)
       = Inr (open_ticket\<lparr>assignedTo := Some (u_id outsider_user), t_updatedAt := 1700000000050\<rparr>)"
proof -
  let ?t' = "open_ticket\<lparr>assignedTo := Some (u_id outsider_user), t_updatedAt := 1700000000050\<rparr>"
  have found: "Ticket_findById desk (t_id open_ticket) = Some open_ticket"
    by (simp add: Ticket_findById_def example_defs assign_outsider_def no_fields_def)
  have org: "t_organizationId open_ticket = a_organizationId org1_agent"
    by (simp add: example_defs assign_outsider_def no_fields_def)
  have valid: "valid_ticket_body assign_outsider"
    by (simp add: validator_defs example_defs assign_outsider_def no_fields_def)
  have staff: "a_role org1_agent \<noteq> ''customer''"
    by (simp add: org1_agent_def)
  have given: "truthy (b_assignedTo assign_outsider)"
    by (simp add: truthy_def example_defs assign_outsider_def no_fields_def)
  from put_ticket_assignedTo_unchecked [OF found org valid, of 1700000000050] staff given
  obtain t' where run: "put_ticket 1700000000050 org1_agent (t_id open_ticket) assign_outsider desk = (Inr t', Ticket_save t' desk)"
    and as: "assignedTo t' = b_assignedTo assign_outsider"
    by blast
  have "fst (put_ticket 1700000000050 org1_agent (t_id open_ticket) assign_outsider desk) = Inr ?t'"
    by (simp add: put_ticket_def Let_def Ticket_findById_def staff_update_def validator_defs
        example_defs assign_outsider_def no_fields_def)
  with run have "t' = ?t'"
    by simp
  with run as found org valid given show ?thesis
    by simp
qed

text \<open>The claim as it was stated fails: an agent assigns a ticket to a customer of another
  organization, and the update is stored.\<close>

theorem put_ticket_invalid_assignee_counterexample:
  "User_findById desk (u_id outsider_user) = Some outsider_user
   \<and> u_role outsider_user = ''customer''
   \<and> u_organizationId outsider_user \<noteq> t_organizationId open_ticket
   \<and> fst (put_ticket 1700000000050 org1_agent (t_id open_ticket) assign_outsider desk)
       = Inr (open_ticket\<lparr>assignedTo := Some (u_id outsider_user), t_updatedAt := 1700000000050\<rparr>)
   \<and> Ticket_findById (snd (put_ticket 1700000000050 org1_agent (t_id open_ticket) assign_outsider desk)) (t_id open_ticket)
       = Some (open_ticket\<lparr>assignedTo := Some (u_id outsider_user), t_updatedAt := 1700000000050\<rparr>)"
  by (simp add: put_ticket_def Let_def Ticket_findById_def Ticket_save_def User_findById_def
      staff_update_def validator_defs example_defs assign_outsider_def no_fields_def)

section \<open>The list of tickets\<close>

text \<open>
  Claim C9, list scoping, as amended. \<^verbatim>\<open>GET api/tickets\<close> returns a ticket \<open>T\<close> iff \<open>T\<close>
  is a ticket of the actor's organization, the actor is not a customer or created \<open>T\<close>,
  and \<open>T\<close> passes the status filter and the search term of the request, where they are
  given. Without filter and search term, a customer's list holds exactly the tickets of the
  organization that the customer created, and the list of any other actor holds exactly
  the tickets of the organization.
\<close>

theorem get_tickets_scoping:
  "(T \<in> set (get_tickets text_search user q d) \<longleftrightarrow>
      T \<in> set (tickets d) \<and> t_organizationId T = a_organizationId user
      \<and> (a_role user = ''customer'' \<longrightarrow> createdBy T = a_id user)
      \<and> (truthy (q_status q) \<and> the (q_status q) \<in> set statuses \<longrightarrow> status T = the (q_status q))
      \<and> (truthy (q_search q) \<longrightarrow> text_search (the (q_search q)) T))
   \<and> (T \<in> set (get_tickets text_search user no_filter d) \<longleftrightarrow>
      T \<in> set (tickets d) \<and> t_organizationId T = a_organizationId user
      \<and> (a_role user = ''customer'' \<longrightarrow> createdBy T = a_id user))"
  by (auto simp: get_tickets_def query_matches_def no_filter_def truthy_def)

theorem get_tickets_scoping_witness:
  "a_role org1_customer = ''customer''
   \<and> open_ticket \<in> set (tickets desk)
   \<and> t_organizationId open_ticket = a_organizationId org1_customer
   \<and> createdBy open_ticket = a_id org1_customer
   \<and> open_ticket \<in> set (get_tickets any_text org1_customer no_filter desk)
   \<and> status open_ticket \<noteq> ''resolved''
   \<and> open_ticket \<notin> set (get_tickets any_text org1_customer only_resolved desk)"
proof -
  have c: "a_role org1_customer = ''customer''"
    by (simp add: org1_customer_def)
  have m: "open_ticket \<in> set (tickets desk)"
    by (simp add: desk_def)
  have o: "t_organizationId open_ticket = a_organizationId org1_customer"
    and own: "createdBy open_ticket = a_id org1_customer"
    and st: "status open_ticket \<noteq> ''resolved''"
    by (simp_all add: open_ticket_def org1_customer_def)
  have f: "truthy (q_status only_resolved)" "the (q_status only_resolved) \<in> set statuses"
    "the (q_status only_resolved) = ''resolved''"
    by (simp_all add: only_resolved_def truthy_def statuses_def)
  note th = get_tickets_scoping [of open_ticket any_text org1_customer _ desk]
  from th m o own have 1: "open_ticket \<in> set (get_tickets any_text org1_customer no_filter desk)"
    by blast
  from th [of only_resolved] f st
  have 2: "open_ticket \<notin> set (get_tickets any_text org1_customer only_resolved desk)"
    by metis
  from c m o own 1 st 2 show ?thesis
    by blast
qed

text \<open>The claim as it was stated fails when the request filters by status: the customer's
  own open ticket is not in the list of resolved tickets.\<close>

theorem get_tickets_customer_counterexample:
  "a_role org1_customer = ''customer''
   \<and> open_ticket \<in> set (tickets desk)
   \<and> t_organizationId open_ticket = a_organizationId org1_customer
   \<and> createdBy open_ticket = a_id org1_customer
   \<and> open_ticket \<notin> set (get_tickets any_text org1_customer only_resolved desk)"
  by (simp add: get_tickets_def query_matches_def truthy_def statuses_def only_resolved_def
      example_defs only_resolved_def any_text_def no_filter_def)

section \<open>Deleting a ticket\<close>

text \<open>
  Claim C10, cascade on delete. A successful \<^verbatim>\<open>DELETE api/tickets/:id\<close> is the act of an
  admin; afterwards the tickets are those whose id is not \<open>i\<close>, the responses are those
  whose \<open>ticketId\<close> is not \<open>i\<close>, both in their old order and unaltered, the users and the
  organizations are as before, and no ticket is found under \<open>i\<close>.
\<close>

theorem delete_ticket_cascade:
  assumes "delete_ticket user i d = (Inr m, d')"
  shows "a_role user = ''admin''
       \<and> tickets d' = filter (\<lambda>t. t_id t \<noteq> i) (tickets d)
       \<and> responses d' = filter (\<lambda>r. ticketId r \<noteq> i) (responses d)
       \<and> users d' = users d \<and> organizations d' = organizations d
       \<and> Ticket_findById d' i = None"
proof -
  from assms obtain t where found: "Ticket_findById d i = Some t"
    and d': "d' = Ticket_remove t (TicketResponse_deleteMany (t_id t) d)"
    and adm: "a_role user = ''admin''"
    by (auto simp: delete_ticket_def authorize_def split: if_splits option.splits)
  have tid: "t_id t = i"
    using found by (rule Ticket_findById_id)
  show ?thesis
    using adm
    by (simp add: d' tid Ticket_remove_def TicketResponse_deleteMany_def Ticket_findById_def
        find_id_filter_out)
qed

theorem delete_ticket_cascade_witness:
  "fst (delete_ticket org1_admin (t_id open_ticket) desk) = Inr ''Ticket removed''
   \<and> tickets (snd (delete_ticket org1_admin (t_id open_ticket) desk)) = [resolved_ticket]
   \<and> responses (snd (delete_ticket org1_admin (t_id open_ticket) desk)) = [reply2]
   \<and> users (snd (delete_ticket org1_admin (t_id open_ticket) desk)) = users desk"
proof -
  have ok: "fst (delete_ticket org1_admin (t_id open_ticket) desk) = Inr ''Ticket removed''"
    by (simp add: delete_ticket_def authorize_def Ticket_findById_def example_defs)
  then have run: "delete_ticket org1_admin (t_id open_ticket) desk
      = (Inr ''Ticket removed'', snd (delete_ticket org1_admin (t_id open_ticket) desk))"
    by (simp add: prod_eq_iff)
  note th = delete_ticket_cascade [OF run]
  have 1: "tickets (snd (delete_ticket org1_admin (t_id open_ticket) desk)) = [resolved_ticket]"
    using th by (simp add: example_defs)
  have 2: "responses (snd (delete_ticket org1_admin (t_id open_ticket) desk)) = [reply2]"
    using th by (simp add: example_defs)
  have 3: "users (snd (delete_ticket org1_admin (t_id open_ticket) desk)) = users desk"
    using th by simp
  from ok 1 2 3 show ?thesis
    by blast
qed

end
